theory Spec2Isabelle
  imports Main "HOL-Library.Char_ord" "HOL-Library.List_Lexorder"
begin

section \<open>Data model\<close>

text \<open>
  The package is a builder over Go's \<open>net/http\<close>. A \<open>Param\<close> is a key-value pair
  (param.go); a \<open>Request\<close> collects method, URL, body, headers and query parameters; a
  \<open>Response\<close> holds what \<open>Send\<close> copies out of the platform's response (response.go).
\<close>

record Param =
  Key :: string
  Value :: string

definition newParam :: "string \<Rightarrow> string \<Rightarrow> Param" where
  "newParam key value = \<lparr>Key = key, Value = value\<rparr>"

text \<open>
  Values of the interface \<open>io.Reader\<close> that the package builds or receives: a
  \<open>*strings.Reader\<close>, a \<open>*bytes.Buffer\<close> and a \<open>*bytes.Reader\<close> (each with the
  contents still to be read), the wrapper \<open>io.NopCloser\<close>, the platform's
  \<open>http.NoBody\<close>, and any other reader a caller hands to \<open>AddBody\<close> (identified by a
  number), which either has a \<open>Close\<close> method (\<open>other_ReadCloser\<close>) or has none
  (\<open>other_Reader\<close>). A nil interface is \<open>None\<close>.
\<close>

datatype Reader =
  strings_Reader string
| bytes_Buffer string
| bytes_Reader string
| io_NopCloser Reader
| http_NoBody
| other_Reader nat
| other_ReadCloser nat

text \<open>A Go \<open>error\<close> value, with its message.\<close>

datatype error = Error string

text \<open>
  \<open>Duration\<close> is a \<open>time.Duration\<close>, in nanoseconds; \<open>Headers\<close> is a slice, the nil
  slice being the empty list.
\<close>

record Response =
  StatusCode :: int
  Duration :: int
  Body :: "Reader option"
  Headers :: "Param list"

record Request =
  Method :: string
  URL :: string
  Body :: "Reader option"
  Headers :: "Param list"
  Query :: "Param list"

section \<open>The platform\<close>

text \<open>
  What the package calls in Go's standard library. \<open>url.Values\<close> and \<open>http.Header\<close>
  are both \<open>map[string][]string\<close>; \<open>Add\<close> appends a value to the slice stored under
  the key. The map is kept as an association list with one entry per key.
\<close>

type_synonym Values = "(string \<times> string list) list"

fun Values_Add :: "Values \<Rightarrow> string \<Rightarrow> string \<Rightarrow> Values" where
  "Values_Add [] key value = [(key, [value])]"
| "Values_Add ((k, vs) # rest) key value =
     (if k = key then (k, vs @ [value]) # rest else (k, vs) # Values_Add rest key value)"

text \<open>
  The platform's \<open>*url.URL\<close>: the raw query string, and everything before it.
\<close>

record url_URL =
  url_prefix :: string
  RawQuery :: string

text \<open>
  The platform's \<open>*http.Request\<close> and \<open>*http.Response\<close>, with the fields the package
  touches and the two other fields in which \<open>http.NewRequest\<close> records the body:
  \<open>ContentLength\<close>, and \<open>GetBody\<close>, a function that returns a fresh copy of the body
  (\<open>None\<close> is the nil function, \<open>Some rc\<close> the function that returns \<open>rc\<close> and no
  error). The client reads \<open>GetBody\<close> when it has to send the body again, as after a
  307 or 308 redirect.
\<close>

record http_Request =
  req_Method :: string
  req_URL :: url_URL
  req_Header :: Values
  req_Body :: "Reader option"
  req_ContentLength :: int
  req_GetBody :: "Reader option"

record http_Response =
  resp_StatusCode :: int
  resp_Body :: Reader

text \<open>
  The library functions are parameters of the model, but for \<open>http.NewRequest\<close>,
  which is written out below. \<open>'v\<close> is the type of the
  values handed to the serialisers (\<open>interface{}\<close> in the source), \<open>'w\<close> the state of a
  \<open>multipart.Writer\<close> together with the \<open>bytes.Buffer\<close> it writes to, \<open>'f\<close> an open
  \<open>*os.File\<close>. A Go function returning \<open>(x, err)\<close> returns \<open>Inl err\<close> when
  \<open>err \<noteq> nil\<close> and \<open>Inr x\<close> otherwise; \<open>io.Copy\<close>, whose partial output stays in
  the buffer when it fails, returns the writer together with the optional error.
  \<open>WriteField\<close> and \<open>Close\<close> return errors that the source drops, so they return the writer only.
\<close>

record ('v, 'w, 'f) platform =
  json_Marshal :: "'v \<Rightarrow> error + string"
  xml_Marshal :: "'v \<Rightarrow> error + string"
  Values_Encode :: "Values \<Rightarrow> string"
  multipart_NewWriter :: "'w"
  WriteField :: "'w \<Rightarrow> string \<Rightarrow> string \<Rightarrow> 'w"
  CreateFormFile :: "'w \<Rightarrow> string \<Rightarrow> string \<Rightarrow> error + 'w"
  os_Open :: "string \<Rightarrow> error + 'f"
  io_Copy :: "'w \<Rightarrow> 'f \<Rightarrow> 'w \<times> error option"
  Writer_Close :: "'w \<Rightarrow> 'w"
  Buffer_Bytes :: "'w \<Rightarrow> string"
  validMethod :: "string \<Rightarrow> bool"
  url_Parse :: "string \<Rightarrow> error + url_URL"
  CanonicalMIMEHeaderKey :: "string \<Rightarrow> string"
  URL_Query :: "url_URL \<Rightarrow> Values"
  client_Do :: "http_Request \<Rightarrow> error + http_Response"


text \<open>
  \<open>http.NewRequest(method, url, body)\<close>, as the standard library defines it. An empty
  method stands for \<open>GET\<close>; an invalid method or a URL that does not parse is an error
  (which methods are valid and how a URL parses are left to the platform; the error
  message for a method is the one of a method of plain printable characters). The
  header map starts empty. A body that has no \<open>Close\<close> method is wrapped in
  \<open>io.NopCloser\<close> (\<open>as_ReadCloser\<close>). If the body itself is a \<open>*bytes.Buffer\<close>, a
  \<open>*bytes.Reader\<close> or a \<open>*strings.Reader\<close>, its length becomes \<open>ContentLength\<close> and
  \<open>GetBody\<close> returns a reader over a snapshot of its contents (\<open>body_snapshot\<close>); when
  that length is zero, \<open>Body\<close> and what \<open>GetBody\<close> returns are \<open>http.NoBody\<close>. For
  every other body \<open>ContentLength\<close> stays zero and \<open>GetBody\<close> nil.
\<close>

fun as_ReadCloser :: "Reader \<Rightarrow> Reader" where
  "as_ReadCloser (io_NopCloser b) = io_NopCloser b"
| "as_ReadCloser http_NoBody = http_NoBody"
| "as_ReadCloser (other_ReadCloser n) = other_ReadCloser n"
| "as_ReadCloser b = io_NopCloser b"

fun body_snapshot :: "Reader \<Rightarrow> (int \<times> Reader) option" where
  "body_snapshot (bytes_Buffer buf) = Some (int (length buf), io_NopCloser (bytes_Reader buf))"
| "body_snapshot (bytes_Reader buf) = Some (int (length buf), io_NopCloser (bytes_Reader buf))"
| "body_snapshot (strings_Reader s) = Some (int (length s), io_NopCloser (strings_Reader s))"
| "body_snapshot b = None"

definition http_NewRequest ::
  "('v, 'w, 'f) platform \<Rightarrow> string \<Rightarrow> string \<Rightarrow> Reader option \<Rightarrow> error + http_Request" where
  "http_NewRequest pf method url body =
     (let method' = (if method = '''' then ''GET'' else method)
      in if \<not> validMethod pf method'
         then Inl (Error (''net/http: invalid method '' @ [CHR 0x22] @ method' @ [CHR 0x22]))
         else (case url_Parse pf url of
                 Inl err \<Rightarrow> Inl err
               | Inr u \<Rightarrow>
                   (let req = \<lparr>req_Method = method', req_URL = u, req_Header = [],
                               req_Body = map_option as_ReadCloser body,
                               req_ContentLength = 0, req_GetBody = None\<rparr>
                    in Inr (case body of
                              None \<Rightarrow> req
                            | Some b \<Rightarrow>
                                (case body_snapshot b of
                                   None \<Rightarrow> req
                                 | Some (n, rc) \<Rightarrow>
                                     (if n = 0
                                      then req\<lparr>req_Body := Some http_NoBody,
                                               req_GetBody := Some http_NoBody\<rparr>
                                      else req\<lparr>req_ContentLength := n,
                                               req_GetBody := Some rc\<rparr>))))))"

text \<open>\<open>http.Header.Add\<close>: the key is canonicalised, then the value is appended.\<close>

definition Header_Add :: "('v, 'w, 'f) platform \<Rightarrow> Values \<Rightarrow> string \<Rightarrow> string \<Rightarrow> Values" where
  "Header_Add pf h key value = Values_Add h (CanonicalMIMEHeaderKey pf key) value"

text \<open>
  \<open>time.Time.Sub\<close> on two clock readings in nanoseconds: the difference, held to the
  range of \<open>time.Duration\<close> (a signed 64-bit count of nanoseconds).
\<close>

definition minDuration :: int where
  "minDuration = - (2 ^ 63)"

definition maxDuration :: int where
  "maxDuration = 2 ^ 63 - 1"

definition time_Sub :: "int \<Rightarrow> int \<Rightarrow> int" where
  "time_Sub t u =
     (let d = t - u
      in if d < minDuration then minDuration else if maxDuration < d then maxDuration else d)"

section \<open>The builder (param.go)\<close>

text \<open>
  Every method has the receiver \<open>r *Request\<close>. A method that returns nothing is modelled
  by the request it leaves behind; a method that returns a result is modelled by the pair
  of the result and the request it leaves behind.
\<close>

definition NewRequest :: "string \<Rightarrow> string \<Rightarrow> Request" where
  "NewRequest method url =
     \<lparr>Method = method, URL = url, Body = None, Headers = [], Query = []\<rparr>"

definition AddHeader :: "Request \<Rightarrow> string \<Rightarrow> string \<Rightarrow> Request" where
  "AddHeader r key value = r\<lparr>Headers := Headers r @ [newParam key value]\<rparr>"

definition AddQuery :: "Request \<Rightarrow> string \<Rightarrow> string \<Rightarrow> Request" where
  "AddQuery r key value = r\<lparr>Query := Query r @ [newParam key value]\<rparr>"

definition AddBody :: "Request \<Rightarrow> Reader option \<Rightarrow> Request" where
  "AddBody r body = r\<lparr>Body := body\<rparr>"

definition AddBodyString :: "Request \<Rightarrow> string \<Rightarrow> Request" where
  "AddBodyString r body = r\<lparr>Body := Some (io_NopCloser (strings_Reader body))\<rparr>"

definition AddBodyJSON :: "('v, 'w, 'f) platform \<Rightarrow> Request \<Rightarrow> 'v \<Rightarrow> Request" where
  "AddBodyJSON pf r body =
     (let r1 = AddHeader r ''Content-Type'' ''application/json''
      in case json_Marshal pf body of
           Inl err \<Rightarrow> r1
         | Inr b \<Rightarrow> AddBodyString r1 b)"

definition AddBodyXML :: "('v, 'w, 'f) platform \<Rightarrow> Request \<Rightarrow> 'v \<Rightarrow> Request" where
  "AddBodyXML pf r body =
     (let r1 = AddHeader r ''Content-Type'' ''application/xml''
      in case xml_Marshal pf body of
           Inl err \<Rightarrow> r1
         | Inr b \<Rightarrow> AddBodyString r1 b)"

text \<open>
  A \<open>map[string]string\<close> argument is the list of its entries in the order in which the
  \<open>range\<close> loop visits them (Go leaves that order open).
\<close>

definition AddBodyForm :: "('v, 'w, 'f) platform \<Rightarrow> Request \<Rightarrow> (string \<times> string) list \<Rightarrow> Request" where
  "AddBodyForm pf r body =
     (let r1 = AddHeader r ''Content-Type'' ''application/x-www-form-urlencoded'';
          form = foldl (\<lambda>form (key, value). Values_Add form key value) [] body
      in AddBodyString r1 (Values_Encode pf form))"

definition AddBodyMultipartForm ::
  "('v, 'w, 'f) platform \<Rightarrow> Request \<Rightarrow> (string \<times> string) list \<Rightarrow> Request" where
  "AddBodyMultipartForm pf r body =
     (let r1 = AddHeader r ''Content-Type'' ''multipart/form-data'';
          w = foldl (\<lambda>w (key, value). WriteField pf w key value) (multipart_NewWriter pf) body;
          w' = Writer_Close pf w
      in AddBody r1 (Some (bytes_Buffer (Buffer_Bytes pf w'))))"

text \<open>
  The two checked errors return early. The error of \<open>io.Copy\<close> is assigned and never
  read: the writer is closed and the buffer becomes the body either way.
  (\<open>defer f.Close()\<close> acts on the file only.)
\<close>

definition AddBodyMultipartFormFile ::
  "('v, 'w, 'f) platform \<Rightarrow> Request \<Rightarrow> (string \<times> string) list \<Rightarrow> string \<Rightarrow> string \<Rightarrow> string \<Rightarrow> Request" where
  "AddBodyMultipartFormFile pf r body fileKey fileName filePath =
     (let r1 = AddHeader r ''Content-Type'' ''multipart/form-data'';
          w = foldl (\<lambda>w (key, value). WriteField pf w key value) (multipart_NewWriter pf) body
      in case CreateFormFile pf w fileKey fileName of
           Inl err \<Rightarrow> r1
         | Inr fw \<Rightarrow>
             (case os_Open pf filePath of
                Inl err \<Rightarrow> r1
              | Inr f \<Rightarrow>
                  (let (w1, err) = io_Copy pf fw f;
                       w2 = Writer_Close pf w1
                   in AddBody r1 (Some (bytes_Buffer (Buffer_Bytes pf w2))))))"

fun GetHeader_loop :: "Param list \<Rightarrow> string \<Rightarrow> string" where
  "GetHeader_loop [] key = ''''"
| "GetHeader_loop (header # rest) key =
     (if Key header = key then Value header else GetHeader_loop rest key)"

definition GetHeader :: "Request \<Rightarrow> string \<Rightarrow> string \<times> Request" where
  "GetHeader r key = (GetHeader_loop (Headers r) key, r)"

fun GetQuery_loop :: "Param list \<Rightarrow> string \<Rightarrow> string" where
  "GetQuery_loop [] key = ''''"
| "GetQuery_loop (query # rest) key =
     (if Key query = key then Value query else GetQuery_loop rest key)"

definition GetQuery :: "Request \<Rightarrow> string \<Rightarrow> string \<times> Request" where
  "GetQuery r key = (GetQuery_loop (Query r) key, r)"

text \<open>\<open>make\<close>: nil (\<open>None\<close>) when \<open>http.NewRequest\<close> fails.\<close>

definition make :: "('v, 'w, 'f) platform \<Rightarrow> Request \<Rightarrow> http_Request option \<times> Request" where
  "make pf r =
     (case http_NewRequest pf (Method r) (URL r) (Body r) of
        Inl err \<Rightarrow> (None, r)
      | Inr req \<Rightarrow>
          (let hdr = foldl (\<lambda>h header. Header_Add pf h (Key header) (Value header))
                       (req_Header req) (Headers r);
               q = foldl (\<lambda>q query. Values_Add q (Key query) (Value query))
                       (URL_Query pf (req_URL req)) (Query r);
               req1 = req\<lparr>req_Header := hdr\<rparr>;
               req2 = req1\<lparr>req_URL := (req_URL req1)\<lparr>RawQuery := Values_Encode pf q\<rparr>\<rparr>;
               req3 = req2\<lparr>req_Body := Some http_NoBody\<rparr>
           in (Some req3, r)))"

text \<open>
  \<open>Send\<close>: \<open>start\<close> and \<open>end\<close> are the two readings of \<open>time.Now()\<close>, the first taken on
  entry, the second after \<open>client.Do\<close> has returned without error. The result is the pair
  \<open>(*Response, error)\<close>, nil being \<open>None\<close>.
\<close>

definition Send ::
  "('v, 'w, 'f) platform \<Rightarrow> int \<Rightarrow> int \<Rightarrow> Request \<Rightarrow> (Response option \<times> error option) \<times> Request" where
  "Send pf start end' r =
     (case make pf r of
        (None, r') \<Rightarrow> ((None, None), r')
      | (Some req, r') \<Rightarrow>
          (case client_Do pf req of
             Inl err \<Rightarrow> ((None, Some err), r')
           | Inr resp \<Rightarrow>
               ((Some \<lparr>StatusCode = resp_StatusCode resp,
                        Duration = time_Sub end' start,
                        Response.Body = Some (resp_Body resp),
                        Response.Headers = []\<rparr>,
                 None), r')))"

section \<open>Sequences of builder calls\<close>

text \<open>
  One call of a builder method on a request, with its arguments, and the request a call
  leaves behind. \<open>AddBody\<close> takes an \<open>io.Reader\<close>, which may be nil.
\<close>

datatype 'v call =
  Call_AddHeader string string
| Call_AddQuery string string
| Call_AddBody "Reader option"
| Call_AddBodyString string
| Call_AddBodyJSON 'v
| Call_AddBodyXML 'v
| Call_AddBodyForm "(string \<times> string) list"
| Call_AddBodyMultipartForm "(string \<times> string) list"
| Call_AddBodyMultipartFormFile "(string \<times> string) list" string string string
| Call_GetHeader string
| Call_GetQuery string

fun run_call :: "('v, 'w, 'f) platform \<Rightarrow> Request \<Rightarrow> 'v call \<Rightarrow> Request" where
  "run_call pf r (Call_AddHeader key value) = AddHeader r key value"
| "run_call pf r (Call_AddQuery key value) = AddQuery r key value"
| "run_call pf r (Call_AddBody body) = AddBody r body"
| "run_call pf r (Call_AddBodyString body) = AddBodyString r body"
| "run_call pf r (Call_AddBodyJSON body) = AddBodyJSON pf r body"
| "run_call pf r (Call_AddBodyXML body) = AddBodyXML pf r body"
| "run_call pf r (Call_AddBodyForm body) = AddBodyForm pf r body"
| "run_call pf r (Call_AddBodyMultipartForm body) = AddBodyMultipartForm pf r body"
| "run_call pf r (Call_AddBodyMultipartFormFile body fileKey fileName filePath) =
     AddBodyMultipartFormFile pf r body fileKey fileName filePath"
| "run_call pf r (Call_GetHeader key) = snd (GetHeader r key)"
| "run_call pf r (Call_GetQuery key) = snd (GetQuery r key)"

definition run_calls :: "('v, 'w, 'f) platform \<Rightarrow> Request \<Rightarrow> 'v call list \<Rightarrow> Request" where
  "run_calls pf r cs = foldl (run_call pf) r cs"

section \<open>A small platform for evaluation\<close>

text \<open>
  A stand-in for the standard library, in the manner of the package's tests (a channel
  that JSON cannot encode, a local test server): enough of each library function to
  evaluate the builder on concrete requests. Its encoders are simplified (no
  percent-escaping, header keys taken as already canonical, a fixed multipart boundary
  and a one-line framing of each part). The theorems below hold for every platform;
  this one only supplies concrete inputs.
\<close>

datatype go_value = go_string string | go_chan

datatype os_File = regular_file string | directory string

fun test_json_Marshal :: "go_value \<Rightarrow> error + string" where
  "test_json_Marshal (go_string s) = Inr ([CHR 0x22] @ s @ [CHR 0x22])"
| "test_json_Marshal go_chan = Inl (Error ''json: unsupported type: chan int'')"

fun test_xml_Marshal :: "go_value \<Rightarrow> error + string" where
  "test_xml_Marshal (go_string s) = Inr (''<string>'' @ s @ ''</string>'')"
| "test_xml_Marshal go_chan = Inl (Error ''xml: unsupported type: chan int'')"

fun join_with :: "string \<Rightarrow> string list \<Rightarrow> string" where
  "join_with sep [] = ''''"
| "join_with sep [x] = x"
| "join_with sep (x # y # zs) = x @ sep @ join_with sep (y # zs)"

definition test_Values_Encode :: "Values \<Rightarrow> string" where
  "test_Values_Encode q =
     join_with ''&'' (concat (map (\<lambda>(k, vs). map (\<lambda>v. k @ ''='' @ v) vs) (sort_key fst q)))"

definition test_WriteField :: "string \<Rightarrow> string \<Rightarrow> string \<Rightarrow> string" where
  "test_WriteField w key value = w @ ''--BOUNDARY;name='' @ key @ '';'' @ value @ '';''"

definition test_CreateFormFile :: "string \<Rightarrow> string \<Rightarrow> string \<Rightarrow> error + string" where
  "test_CreateFormFile w fileKey fileName =
     Inr (w @ ''--BOUNDARY;name='' @ fileKey @ '';filename='' @ fileName @ '';'')"

text \<open>
  The file system: one regular file, and the directory that holds it. Opening a
  directory succeeds; reading from it fails.
\<close>

definition test_os_Open :: "string \<Rightarrow> error + os_File" where
  "test_os_Open path =
     (if path = ''/tmp/hello.txt'' then Inr (regular_file ''hello world'')
      else if path = ''/tmp'' then Inr (directory ''/tmp'')
      else Inl (Error (''open '' @ path @ '': no such file or directory'')))"

fun test_io_Copy :: "string \<Rightarrow> os_File \<Rightarrow> string \<times> error option" where
  "test_io_Copy w (regular_file contents) = (w @ contents, None)"
| "test_io_Copy w (directory path) = (w, Some (Error (''read '' @ path @ '': is a directory'')))"

definition test_Writer_Close :: "string \<Rightarrow> string" where
  "test_Writer_Close w = w @ ''--BOUNDARY--''"

text \<open>Methods without a space are taken as valid, and URLs without a space as well formed.\<close>

definition test_validMethod :: "string \<Rightarrow> bool" where
  "test_validMethod method = (method \<noteq> [] \<and> CHR '' '' \<notin> set method)"

definition test_url_Parse :: "string \<Rightarrow> error + url_URL" where
  "test_url_Parse url =
     (if CHR '' '' \<in> set url
      then Inl (Error (''parse '' @ url @ '': invalid character in host name''))
      else Inr \<lparr>url_prefix = takeWhile (\<lambda>c. c \<noteq> CHR ''?'') url,
                RawQuery = drop 1 (dropWhile (\<lambda>c. c \<noteq> CHR ''?'') url)\<rparr>)"

fun split_on :: "char \<Rightarrow> string \<Rightarrow> string list" where
  "split_on c [] = [[]]"
| "split_on c (x # xs) =
     (if x = c then [] # split_on c xs
      else (case split_on c xs of [] \<Rightarrow> [[x]] | p # ps \<Rightarrow> (x # p) # ps))"

definition test_URL_Query :: "url_URL \<Rightarrow> Values" where
  "test_URL_Query u =
     foldl (\<lambda>q piece. if piece = [] then q
                       else Values_Add q (takeWhile (\<lambda>c. c \<noteq> CHR ''='') piece)
                              (drop 1 (dropWhile (\<lambda>c. c \<noteq> CHR ''='') piece)))
       [] (split_on (CHR ''&'') (RawQuery u))"

text \<open>The network: one server, which answers every request with status 200.\<close>

definition test_client_Do :: "http_Request \<Rightarrow> error + http_Response" where
  "test_client_Do req =
     (if url_prefix (req_URL req) = ''http://127.0.0.1:8080''
      then Inr \<lparr>resp_StatusCode = 200, resp_Body = io_NopCloser (strings_Reader ''Hello, client'')\<rparr>
      else Inl (Error ''dial tcp: connection refused''))"

definition test_platform :: "(go_value, string, os_File) platform" where
  "test_platform =
     \<lparr>json_Marshal = test_json_Marshal,
      xml_Marshal = test_xml_Marshal,
      Values_Encode = test_Values_Encode,
      multipart_NewWriter = '''',
      WriteField = test_WriteField,
      CreateFormFile = test_CreateFormFile,
      os_Open = test_os_Open,
      io_Copy = test_io_Copy,
      Writer_Close = test_Writer_Close,
      Buffer_Bytes = (\<lambda>w. w),
      validMethod = test_validMethod,
      url_Parse = test_url_Parse,
      CanonicalMIMEHeaderKey = (\<lambda>key. key),
      URL_Query = test_URL_Query,
      client_Do = test_client_Do\<rparr>"

section \<open>Example requests\<close>

text \<open>
  The request of the package's test \<open>TestMakeWithBody\<close>, aimed at the test server: two
  headers, two query parameters and a body.
\<close>

definition example_request :: Request where
  "example_request =
     run_calls test_platform (NewRequest ''GET'' ''http://127.0.0.1:8080'')
       [Call_AddHeader ''Content-Type'' ''application/json'',
        Call_AddHeader ''Accept'' ''application/json'',
        Call_AddQuery ''foo'' ''bar'',
        Call_AddQuery ''baz'' ''qux'',
        Call_AddBody (Some (strings_Reader ''hello world''))]"

text \<open>A request in which a header key and a query key each occur twice.\<close>

definition repeated_request :: Request where
  "repeated_request =
     run_calls test_platform (NewRequest ''GET'' ''http://127.0.0.1:8080'')
       [Call_AddHeader ''Accept'' ''text/html'',
        Call_AddHeader ''X-Trace'' ''first'',
        Call_AddHeader ''X-Trace'' ''second'',
        Call_AddQuery ''page'' ''1'',
        Call_AddQuery ''tag'' ''a'',
        Call_AddQuery ''tag'' ''b'']"

text \<open>A request whose method is not a valid token, so that \<open>http.NewRequest\<close> refuses it.\<close>

definition malformed_request :: Request where
  "malformed_request = NewRequest ''BAD METHOD'' ''http://127.0.0.1:8080''"



section \<open>Materialisation\<close>


lemma make_None:
  "fst (make pf r) = None \<longleftrightarrow>
     (\<exists>err. http_NewRequest pf (Method r) (URL r) (Request.Body r) = Inl err)"
  by (auto simp: make_def Let_def split: sum.splits)

lemma make_snd: "snd (make pf r) = r"
  by (simp add: make_def Let_def split: sum.splits)







text \<open>The bodies that the setters build.\<close>

lemma body_setters_build:
  "Request.Body (AddBodyString r s) = Some (io_NopCloser (strings_Reader s))"
  "json_Marshal pf v = Inr s \<Longrightarrow>
     Request.Body (AddBodyJSON pf r v) = Some (io_NopCloser (strings_Reader s))"
  "xml_Marshal pf v = Inr s \<Longrightarrow>
     Request.Body (AddBodyXML pf r v) = Some (io_NopCloser (strings_Reader s))"
  "\<exists>s. Request.Body (AddBodyForm pf r form) = Some (io_NopCloser (strings_Reader s))"
  "\<exists>s. Request.Body (AddBodyMultipartForm pf r form) = Some (bytes_Buffer s)"
  "Request.Body (AddBody r body) = body"
  by (simp_all add: AddBodyString_def AddBodyJSON_def AddBodyXML_def AddBodyForm_def
      AddBodyMultipartForm_def AddBody_def AddHeader_def Let_def)


lemma example_request_made:
  "fst (make test_platform example_request) =
     Some \<lparr>req_Method = ''GET'',
           req_URL = \<lparr>url_prefix = ''http://127.0.0.1:8080'', RawQuery = ''baz=qux&foo=bar''\<rparr>,
           req_Header = [(''Content-Type'', [''application/json'']),
                         (''Accept'', [''application/json''])],
           req_Body = Some http_NoBody,
           req_ContentLength = 11,
           req_GetBody = Some (io_NopCloser (strings_Reader ''hello world''))\<rparr>"
  by code_simp




lemma malformed_request_not_made: "fst (make test_platform malformed_request) = None"
  by code_simp




section \<open>Sending\<close>

text \<open>
  C2. When \<open>make\<close> returns nil, \<open>Send\<close> returns a nil \<open>Response\<close> and a nil error.
\<close>

theorem Send_make_failure_nil_nil:
  assumes "fst (make pf r) = None"
  shows "fst (Send pf start end' r) = (None, None)"
  using assms by (cases "make pf r") (simp add: Send_def)

theorem Send_make_failure_nil_nil_witness:
  "fst (make test_platform malformed_request) = None \<and>
   fst (Send test_platform 10 25 malformed_request) = (None, None)"
  using Send_make_failure_nil_nil [OF malformed_request_not_made, of 10 25]
    malformed_request_not_made
  by simp

lemma time_Sub_in_range:
  "minDuration \<le> t - u \<Longrightarrow> t - u \<le> maxDuration \<Longrightarrow> time_Sub t u = t - u"
  by (simp add: time_Sub_def Let_def)

text \<open>
  C7. When \<open>make\<close> returns a platform request and the client returns a response for it
  without error, \<open>Send\<close> returns a nil error and a \<open>Response\<close> whose status code and body
  are those of the platform's response, whose duration is \<open>end.Sub(start)\<close> (the
  difference of the two clock readings wherever that difference is a
  \<open>time.Duration\<close>), and whose headers are empty.
\<close>

theorem Send_success_response:
  assumes "fst (make pf r) = Some req"
    and "client_Do pf req = Inr resp"
  shows "fst (Send pf start end' r) =
      (Some \<lparr>StatusCode = resp_StatusCode resp,
              Duration = time_Sub end' start,
              Response.Body = Some (resp_Body resp),
              Response.Headers = []\<rparr>, None) \<and>
    (minDuration \<le> end' - start \<and> end' - start \<le> maxDuration \<longrightarrow>
       time_Sub end' start = end' - start)"
  using assms by (cases "make pf r") (simp add: Send_def time_Sub_in_range)

theorem Send_success_response_witness:
  "fst (make test_platform example_request) =
     Some \<lparr>req_Method = ''GET'',
           req_URL = \<lparr>url_prefix = ''http://127.0.0.1:8080'', RawQuery = ''baz=qux&foo=bar''\<rparr>,
           req_Header = [(''Content-Type'', [''application/json'']),
                         (''Accept'', [''application/json''])],
           req_Body = Some http_NoBody,
           req_ContentLength = 11,
           req_GetBody = Some (io_NopCloser (strings_Reader ''hello world''))\<rparr> \<and>
   fst (Send test_platform 10 25 example_request) =
     (Some \<lparr>StatusCode = 200, Duration = 15,
             Response.Body = Some (io_NopCloser (strings_Reader ''Hello, client'')),
             Response.Headers = []\<rparr>, None)"
proof -
  have served: "client_Do test_platform
       \<lparr>req_Method = ''GET'',
        req_URL = \<lparr>url_prefix = ''http://127.0.0.1:8080'', RawQuery = ''baz=qux&foo=bar''\<rparr>,
        req_Header = [(''Content-Type'', [''application/json'']),
                      (''Accept'', [''application/json''])],
        req_Body = Some http_NoBody,
        req_ContentLength = 11,
        req_GetBody = Some (io_NopCloser (strings_Reader ''hello world''))\<rparr> =
      Inr \<lparr>resp_StatusCode = 200, resp_Body = io_NopCloser (strings_Reader ''Hello, client'')\<rparr>"
    by (simp add: test_platform_def test_client_Do_def)
  have range: "minDuration \<le> (25::int) - 10 \<and> (25::int) - 10 \<le> maxDuration"
    by (simp add: minDuration_def maxDuration_def)
  from Send_success_response [OF example_request_made served, of 10 25] range
  show ?thesis
    using example_request_made by simp
qed

text \<open>
  C9. \<open>Send\<close> returns a \<open>Response\<close> and a nil error, or a nil \<open>Response\<close> and an error,
  or nil and nil (exactly when \<open>make\<close> returned nil); never a \<open>Response\<close> together with
  an error.
\<close>

theorem Send_never_both:
  "((\<exists>resp. fst (Send pf start end' r) = (Some resp, None)) \<or>
    (\<exists>err. fst (Send pf start end' r) = (None, Some err)) \<or>
    fst (Send pf start end' r) = (None, None)) \<and>
   (fst (fst (Send pf start end' r)) = None \<or> snd (fst (Send pf start end' r)) = None) \<and>
   ((fst (Send pf start end' r) = (None, None)) = (fst (make pf r) = None))"
  by (cases "make pf r") (auto simp: Send_def split: option.splits sum.splits)

section \<open>Headers and query parameters\<close>

lemma GetHeader_loop_find:
  "GetHeader_loop ps key = (case find (\<lambda>p. Key p = key) ps of None \<Rightarrow> '''' | Some p \<Rightarrow> Value p)"
  by (induction ps) simp_all

lemma GetQuery_loop_find:
  "GetQuery_loop ps key = (case find (\<lambda>p. Key p = key) ps of None \<Rightarrow> '''' | Some p \<Rightarrow> Value p)"
  by (induction ps) simp_all

lemma find_first_index:
  assumes "i < length ps" and "P (ps ! i)" and "\<forall>j<i. \<not> P (ps ! j)"
  shows "find P ps = Some (ps ! i)"
  using assms unfolding find_Some_iff by blast

lemma find_no_match:
  assumes "\<forall>p\<in>set ps. \<not> P p"
  shows "find P ps = None"
  using assms by (simp add: find_None_iff)

lemma GetHeader_loop_append:
  "GetHeader_loop (ps @ [p]) key =
     (if key \<in> Key ` set ps then GetHeader_loop ps key
      else if Key p = key then Value p else '''')"
  by (induction ps) auto

lemma GetHeader_loop_absent:
  "key \<notin> Key ` set ps \<Longrightarrow> GetHeader_loop ps key = ''''"
  by (induction ps) auto

lemma repeated_request_fields:
  "repeated_request =
     \<lparr>Method = ''GET'', URL = ''http://127.0.0.1:8080'', Body = None,
      Headers = [\<lparr>Key = ''Accept'', Value = ''text/html''\<rparr>,
                 \<lparr>Key = ''X-Trace'', Value = ''first''\<rparr>,
                 \<lparr>Key = ''X-Trace'', Value = ''second''\<rparr>],
      Query = [\<lparr>Key = ''page'', Value = ''1''\<rparr>,
               \<lparr>Key = ''tag'', Value = ''a''\<rparr>,
               \<lparr>Key = ''tag'', Value = ''b''\<rparr>]\<rparr>"
  by code_simp

text \<open>
  C5, as the code has it. On a request that holds no header with the key,
  \<open>AddHeader(key, value)\<close> followed by \<open>GetHeader(key)\<close> returns \<open>value\<close>, and
  \<open>GetHeader(key)\<close> on the request itself returns the empty string. On a request that
  already holds a header with the key, \<open>GetHeader(key)\<close> after \<open>AddHeader(key, value)\<close>
  returns what it returned before: the value of the first such header.
\<close>

theorem AddHeader_GetHeader_fresh_key:
  "(key \<notin> Key ` set (Request.Headers r) \<longrightarrow>
      fst (GetHeader (AddHeader r key value) key) = value \<and> fst (GetHeader r key) = '''') \<and>
   (key \<in> Key ` set (Request.Headers r) \<longrightarrow>
      fst (GetHeader (AddHeader r key value) key) = fst (GetHeader r key))"
  by (simp add: GetHeader_def AddHeader_def newParam_def GetHeader_loop_append
      GetHeader_loop_absent)

theorem AddHeader_GetHeader_fresh_key_witness:
  "''Host'' \<notin> Key ` set (Request.Headers repeated_request) \<and>
   fst (GetHeader (AddHeader repeated_request ''Host'' ''example.com'') ''Host'') = ''example.com'' \<and>
   fst (GetHeader repeated_request ''Host'') = '''' \<and>
   ''Accept'' \<in> Key ` set (Request.Headers repeated_request) \<and>
   fst (GetHeader (AddHeader repeated_request ''Accept'' ''application/json'') ''Accept'') =
     fst (GetHeader repeated_request ''Accept'')"
proof -
  have fresh: "''Host'' \<notin> Key ` set (Request.Headers repeated_request)"
    by (simp add: repeated_request_fields)
  have held: "''Accept'' \<in> Key ` set (Request.Headers repeated_request)"
    by (simp add: repeated_request_fields)
  from AddHeader_GetHeader_fresh_key [of "''Host''" repeated_request "''example.com''"] fresh
  have "fst (GetHeader (AddHeader repeated_request ''Host'' ''example.com'') ''Host'') = ''example.com''
      \<and> fst (GetHeader repeated_request ''Host'') = ''''"
    by blast
  moreover
  from AddHeader_GetHeader_fresh_key [of "''Accept''" repeated_request "''application/json''"] held
  have "fst (GetHeader (AddHeader repeated_request ''Accept'' ''application/json'') ''Accept'') =
     fst (GetHeader repeated_request ''Accept'')"
    by blast
  ultimately show ?thesis
    using fresh held by blast
qed

text \<open>
  C5 as the specification states it fails: after \<open>AddHeader("Accept", "text/html")\<close>,
  adding \<open>Accept: application/json\<close> and reading \<open>Accept\<close> back returns \<open>text/html\<close>.
\<close>

theorem AddHeader_GetHeader_counterexample:
  "fst (GetHeader
     (AddHeader (AddHeader (NewRequest ''GET'' ''http://example.com'') ''Accept'' ''text/html'')
        ''Accept'' ''application/json'')
     ''Accept'') \<noteq> ''application/json''"
  by (simp add: GetHeader_def AddHeader_def NewRequest_def newParam_def)

text \<open>
  C6. \<open>GetHeader(key)\<close> returns the value of the first \<open>Param\<close> of \<open>Headers\<close> whose key
  is \<open>key\<close> (the one at the least index, the slice being in insertion order), and the
  empty string when there is none; a request with no such header and one whose only
  such header has the empty value give the same answer. \<open>GetQuery\<close> does the same over
  \<open>Query\<close>.
\<close>

theorem GetHeader_GetQuery_first_match:
  "fst (GetHeader r key) =
     (case find (\<lambda>p. Key p = key) (Request.Headers r) of None \<Rightarrow> '''' | Some p \<Rightarrow> Value p) \<and>
   fst (GetQuery r key) =
     (case find (\<lambda>p. Key p = key) (Query r) of None \<Rightarrow> '''' | Some p \<Rightarrow> Value p) \<and>
   (\<forall>i. i < length (Request.Headers r) \<and> Key (Request.Headers r ! i) = key \<and>
        (\<forall>j<i. Key (Request.Headers r ! j) \<noteq> key) \<longrightarrow>
        fst (GetHeader r key) = Value (Request.Headers r ! i)) \<and>
   ((\<forall>p\<in>set (Request.Headers r). Key p \<noteq> key) \<longrightarrow> fst (GetHeader r key) = '''') \<and>
   (\<forall>i. i < length (Query r) \<and> Key (Query r ! i) = key \<and>
        (\<forall>j<i. Key (Query r ! j) \<noteq> key) \<longrightarrow>
        fst (GetQuery r key) = Value (Query r ! i)) \<and>
   ((\<forall>p\<in>set (Query r). Key p \<noteq> key) \<longrightarrow> fst (GetQuery r key) = '''') \<and>
   fst (GetHeader (r\<lparr>Headers := [newParam key '''']\<rparr>) key) =
     fst (GetHeader (r\<lparr>Headers := []\<rparr>) key) \<and>
   fst (GetQuery (r\<lparr>Query := [newParam key '''']\<rparr>) key) =
     fst (GetQuery (r\<lparr>Query := []\<rparr>) key)"
proof -
  have h: "fst (GetHeader r key) =
     (case find (\<lambda>p. Key p = key) (Request.Headers r) of None \<Rightarrow> '''' | Some p \<Rightarrow> Value p)"
    by (simp add: GetHeader_def GetHeader_loop_find)
  have q: "fst (GetQuery r key) =
     (case find (\<lambda>p. Key p = key) (Query r) of None \<Rightarrow> '''' | Some p \<Rightarrow> Value p)"
    by (simp add: GetQuery_def GetQuery_loop_find)
  have hi: "fst (GetHeader r key) = Value (Request.Headers r ! i)"
    if "i < length (Request.Headers r) \<and> Key (Request.Headers r ! i) = key \<and>
        (\<forall>j<i. Key (Request.Headers r ! j) \<noteq> key)" for i
    using that find_first_index [of i "Request.Headers r" "\<lambda>p. Key p = key"] by (simp add: h)
  have qi: "fst (GetQuery r key) = Value (Query r ! i)"
    if "i < length (Query r) \<and> Key (Query r ! i) = key \<and>
        (\<forall>j<i. Key (Query r ! j) \<noteq> key)" for i
    using that find_first_index [of i "Query r" "\<lambda>p. Key p = key"] by (simp add: q)
  have hn: "fst (GetHeader r key) = ''''" if "\<forall>p\<in>set (Request.Headers r). Key p \<noteq> key"
    using that find_no_match [of "Request.Headers r" "\<lambda>p. Key p = key"] by (simp add: h)
  have qn: "fst (GetQuery r key) = ''''" if "\<forall>p\<in>set (Query r). Key p \<noteq> key"
    using that find_no_match [of "Query r" "\<lambda>p. Key p = key"] by (simp add: q)
  have he: "fst (GetHeader (r\<lparr>Headers := [newParam key '''']\<rparr>) key) =
     fst (GetHeader (r\<lparr>Headers := []\<rparr>) key)"
    by (simp add: GetHeader_def newParam_def)
  have qe: "fst (GetQuery (r\<lparr>Query := [newParam key '''']\<rparr>) key) =
     fst (GetQuery (r\<lparr>Query := []\<rparr>) key)"
    by (simp add: GetQuery_def newParam_def)
  from h q hi hn qi qn he qe show ?thesis
    by blast
qed

theorem GetHeader_GetQuery_first_match_witness:
  "Key (Request.Headers repeated_request ! 0) \<noteq> ''X-Trace'' \<and>
   Key (Request.Headers repeated_request ! 1) = ''X-Trace'' \<and>
   Key (Request.Headers repeated_request ! 2) = ''X-Trace'' \<and>
   fst (GetHeader repeated_request ''X-Trace'') = ''first'' \<and>
   fst (GetHeader repeated_request ''Host'') = '''' \<and>
   Key (Query repeated_request ! 0) \<noteq> ''tag'' \<and>
   Key (Query repeated_request ! 1) = ''tag'' \<and>
   Key (Query repeated_request ! 2) = ''tag'' \<and>
   fst (GetQuery repeated_request ''tag'') = ''a'' \<and>
   fst (GetQuery repeated_request ''sort'') = ''''"
proof -
  have h1: "1 < length (Request.Headers repeated_request) \<and>
      Key (Request.Headers repeated_request ! 1) = ''X-Trace'' \<and>
      (\<forall>j<1. Key (Request.Headers repeated_request ! j) \<noteq> ''X-Trace'')"
    by (simp add: repeated_request_fields)
  have h2: "\<forall>p\<in>set (Request.Headers repeated_request). Key p \<noteq> ''Host''"
    by (simp add: repeated_request_fields)
  have q1: "1 < length (Query repeated_request) \<and>
      Key (Query repeated_request ! 1) = ''tag'' \<and>
      (\<forall>j<1. Key (Query repeated_request ! j) \<noteq> ''tag'')"
    by (simp add: repeated_request_fields)
  have q2: "\<forall>p\<in>set (Query repeated_request). Key p \<noteq> ''sort''"
    by (simp add: repeated_request_fields)
  from GetHeader_GetQuery_first_match [of repeated_request "''X-Trace''"] h1
  have a: "fst (GetHeader repeated_request ''X-Trace'') = Value (Request.Headers repeated_request ! 1)"
    by blast
  from GetHeader_GetQuery_first_match [of repeated_request "''Host''"] h2
  have b: "fst (GetHeader repeated_request ''Host'') = ''''"
    by blast
  from GetHeader_GetQuery_first_match [of repeated_request "''tag''"] q1
  have c: "fst (GetQuery repeated_request ''tag'') = Value (Query repeated_request ! 1)"
    by blast
  from GetHeader_GetQuery_first_match [of repeated_request "''sort''"] q2
  have d: "fst (GetQuery repeated_request ''sort'') = ''''"
    by blast
  from a b c d show ?thesis
    by (simp add: repeated_request_fields)
qed

text \<open>
  C10. \<open>GetHeader\<close> and \<open>GetQuery\<close> leave the request as it was: method, URL, body,
  headers and query are the same after the call as before it.
\<close>

theorem GetHeader_GetQuery_leave_request:
  "snd (GetHeader r key) = r \<and> snd (GetQuery r key) = r \<and>
   Method (snd (GetHeader r key)) = Method r \<and> URL (snd (GetHeader r key)) = URL r \<and>
   Request.Body (snd (GetHeader r key)) = Request.Body r \<and>
   Request.Headers (snd (GetHeader r key)) = Request.Headers r \<and>
   Query (snd (GetHeader r key)) = Query r \<and>
   Method (snd (GetQuery r key)) = Method r \<and> URL (snd (GetQuery r key)) = URL r \<and>
   Request.Body (snd (GetQuery r key)) = Request.Body r \<and>
   Request.Headers (snd (GetQuery r key)) = Request.Headers r \<and>
   Query (snd (GetQuery r key)) = Query r"
  by (simp add: GetHeader_def GetQuery_def)

section \<open>Body setters\<close>

text \<open>
  C4, as the code has it. \<open>AddBodyJSON\<close> appends the header
  \<open>Content-Type: application/json\<close> whether or not the value can be serialised. When
  \<open>json.Marshal\<close> fails, nothing else happens: the request is the one it was with that
  header appended, so its body is the body it had before the call (none, if it had none),
  and the error goes nowhere (the method returns nothing).
\<close>

theorem AddBodyJSON_header_failure_keeps_body:
  "Request.Headers (AddBodyJSON pf r body) =
     Request.Headers r @ [\<lparr>Key = ''Content-Type'', Value = ''application/json''\<rparr>] \<and>
   (\<forall>err. json_Marshal pf body = Inl err \<longrightarrow>
      AddBodyJSON pf r body =
        r\<lparr>Headers := Request.Headers r @ [\<lparr>Key = ''Content-Type'', Value = ''application/json''\<rparr>]\<rparr> \<and>
      Request.Body (AddBodyJSON pf r body) = Request.Body r)"
  by (simp add: AddBodyJSON_def AddHeader_def AddBodyString_def newParam_def Let_def
      split: sum.splits)

theorem AddBodyJSON_header_failure_keeps_body_witness:
  "json_Marshal test_platform go_chan = Inl (Error ''json: unsupported type: chan int'') \<and>
   Request.Headers (AddBodyJSON test_platform (NewRequest ''GET'' ''http://example.com'') go_chan) =
     [\<lparr>Key = ''Content-Type'', Value = ''application/json''\<rparr>] \<and>
   Request.Body (AddBodyJSON test_platform (NewRequest ''GET'' ''http://example.com'') go_chan) = None \<and>
   Request.Body (AddBodyJSON test_platform
       (AddBodyString (NewRequest ''GET'' ''http://example.com'') ''kept'') go_chan) =
     Some (io_NopCloser (strings_Reader ''kept''))"
proof -
  have fails: "json_Marshal test_platform go_chan = Inl (Error ''json: unsupported type: chan int'')"
    by (simp add: test_platform_def)
  from AddBodyJSON_header_failure_keeps_body
    [of test_platform "NewRequest ''GET'' ''http://example.com''" go_chan] fails
  have "Request.Headers (AddBodyJSON test_platform (NewRequest ''GET'' ''http://example.com'') go_chan) =
      Request.Headers (NewRequest ''GET'' ''http://example.com'') @
        [\<lparr>Key = ''Content-Type'', Value = ''application/json''\<rparr>]"
    and "Request.Body (AddBodyJSON test_platform (NewRequest ''GET'' ''http://example.com'') go_chan) =
      Request.Body (NewRequest ''GET'' ''http://example.com'')"
    by blast+
  moreover
  from AddBodyJSON_header_failure_keeps_body
    [of test_platform "AddBodyString (NewRequest ''GET'' ''http://example.com'') ''kept''" go_chan] fails
  have "Request.Body (AddBodyJSON test_platform
       (AddBodyString (NewRequest ''GET'' ''http://example.com'') ''kept'') go_chan) =
      Request.Body (AddBodyString (NewRequest ''GET'' ''http://example.com'') ''kept'')"
    by blast
  ultimately show ?thesis
    using fails by (simp add: NewRequest_def AddBodyString_def)
qed

text \<open>
  C4 as the specification states it fails on a request that already has a body: after
  \<open>AddBodyString("kept")\<close>, an \<open>AddBodyJSON\<close> of a channel, which JSON cannot encode,
  leaves the body set.
\<close>

theorem AddBodyJSON_failure_body_set_counterexample:
  "json_Marshal test_platform go_chan = Inl (Error ''json: unsupported type: chan int'') \<and>
   Request.Body (AddBodyJSON test_platform
       (AddBodyString (NewRequest ''GET'' ''http://example.com'') ''kept'') go_chan) \<noteq> None"
  by (simp add: test_platform_def AddBodyJSON_def AddHeader_def AddBodyString_def Let_def)

lemma AddBodyMultipartFormFile_create_failure:
  assumes "CreateFormFile pf
      (foldl (\<lambda>w (key, value). WriteField pf w key value) (multipart_NewWriter pf) body)
      fileKey fileName = Inl err"
  shows "AddBodyMultipartFormFile pf r body fileKey fileName filePath =
     AddHeader r ''Content-Type'' ''multipart/form-data''"
  using assms by (simp add: AddBodyMultipartFormFile_def Let_def)

lemma AddBodyMultipartFormFile_open_failure:
  assumes "os_Open pf filePath = Inl err"
  shows "AddBodyMultipartFormFile pf r body fileKey fileName filePath =
     AddHeader r ''Content-Type'' ''multipart/form-data''"
  using assms by (simp add: AddBodyMultipartFormFile_def Let_def split: sum.splits)

lemma AddBodyMultipartFormFile_copy_error_dropped:
  assumes "CreateFormFile pf
      (foldl (\<lambda>w (key, value). WriteField pf w key value) (multipart_NewWriter pf) body)
      fileKey fileName = Inr fw"
    and "os_Open pf filePath = Inr f"
  shows "Request.Body (AddBodyMultipartFormFile pf r body fileKey fileName filePath) =
     Some (bytes_Buffer (Buffer_Bytes pf (Writer_Close pf (fst (io_Copy pf fw f)))))"
  using assms
  by (simp add: AddBodyMultipartFormFile_def AddBody_def Let_def split: prod.splits)

text \<open>
  C3. When \<open>CreateFormFile\<close> or \<open>os.Open\<close> fails, \<open>AddBodyMultipartFormFile\<close> stops after
  the header, as the two lemmas above say. When the file opens and reading it fails,
  it does not: the error of \<open>io.Copy\<close> is dropped and the buffer becomes the body.
  Here the path is a directory, which opens and cannot be read; the request had no body
  and ends with one, holding the field, the header of the file part and the closing
  boundary.
\<close>

theorem AddBodyMultipartFormFile_read_failure_sets_body:
  "os_Open test_platform ''/tmp'' = Inr (directory ''/tmp'') \<and>
   (\<forall>w. snd (io_Copy test_platform w (directory ''/tmp'')) =
      Some (Error ''read /tmp: is a directory'')) \<and>
   Request.Body (NewRequest ''POST'' ''http://127.0.0.1:8080'') = None \<and>
   Request.Body (AddBodyMultipartFormFile test_platform
       (NewRequest ''POST'' ''http://127.0.0.1:8080'') [(''a'', ''1'')] ''file'' ''tmp'' ''/tmp'') =
     Some (bytes_Buffer ''--BOUNDARY;name=a;1;--BOUNDARY;name=file;filename=tmp;--BOUNDARY--'') \<and>
   Request.Headers (AddBodyMultipartFormFile test_platform
       (NewRequest ''POST'' ''http://127.0.0.1:8080'') [(''a'', ''1'')] ''file'' ''tmp'' ''/tmp'') =
     [newParam ''Content-Type'' ''multipart/form-data'']"
proof -
  have opened: "os_Open test_platform ''/tmp'' = Inr (directory ''/tmp'')"
    by (simp add: test_platform_def test_os_Open_def)
  have unread: "\<forall>w. snd (io_Copy test_platform w (directory ''/tmp'')) =
      Some (Error ''read /tmp: is a directory'')"
    by (simp add: test_platform_def)
  have unset: "Request.Body (NewRequest ''POST'' ''http://127.0.0.1:8080'') = None"
    by (simp add: NewRequest_def)
  have body: "Request.Body (AddBodyMultipartFormFile test_platform
       (NewRequest ''POST'' ''http://127.0.0.1:8080'') [(''a'', ''1'')] ''file'' ''tmp'' ''/tmp'') =
     Some (bytes_Buffer ''--BOUNDARY;name=a;1;--BOUNDARY;name=file;filename=tmp;--BOUNDARY--'')"
    by code_simp
  have headers: "Request.Headers (AddBodyMultipartFormFile test_platform
       (NewRequest ''POST'' ''http://127.0.0.1:8080'') [(''a'', ''1'')] ''file'' ''tmp'' ''/tmp'') =
     [newParam ''Content-Type'' ''multipart/form-data'']"
    by code_simp
  from opened unread unset body headers show ?thesis
    by blast
qed

section \<open>Method and URL\<close>

lemma run_call_Method_URL:
  "Method (run_call pf r c) = Method r \<and> URL (run_call pf r c) = URL r"
  by (cases c)
    (simp_all add: AddHeader_def AddQuery_def AddBody_def AddBodyString_def AddBodyJSON_def
      AddBodyXML_def AddBodyForm_def AddBodyMultipartForm_def AddBodyMultipartFormFile_def
      GetHeader_def GetQuery_def Let_def split: sum.splits prod.splits)

lemma run_calls_Method_URL:
  "Method (run_calls pf r cs) = Method r \<and> URL (run_calls pf r cs) = URL r"
  unfolding run_calls_def
  by (induction cs arbitrary: r) (simp_all add: run_call_Method_URL)

text \<open>
  C8. \<open>NewRequest(method, url)\<close> sets \<open>Method\<close> and \<open>URL\<close> to its arguments, and no call
  of \<open>AddHeader\<close>, \<open>AddQuery\<close>, \<open>AddBody\<close>, \<open>AddBodyString\<close>, \<open>AddBodyJSON\<close>,
  \<open>AddBodyXML\<close>, \<open>AddBodyForm\<close>, \<open>AddBodyMultipartForm\<close>,
  \<open>AddBodyMultipartFormFile\<close>, \<open>GetHeader\<close> or \<open>GetQuery\<close> changes either: after any
  sequence of such calls on the new request they are still \<open>method\<close> and \<open>url\<close>.
\<close>

theorem Method_URL_never_change:
  "Method (NewRequest method url) = method \<and> URL (NewRequest method url) = url \<and>
   Method (run_call pf r c) = Method r \<and> URL (run_call pf r c) = URL r \<and>
   Method (run_calls pf (NewRequest method url) cs) = method \<and>
   URL (run_calls pf (NewRequest method url) cs) = url"
  by (simp add: run_call_Method_URL run_calls_Method_URL) (simp add: NewRequest_def)

end
